theory Spec2Isabelle
  imports Complex_Main
begin

section \<open>Python values\<close>

text \<open>
  The handlers of \<^verbatim>\<open>main.py\<close> work on dynamically typed data: what
  \<^verbatim>\<open>receive_json\<close> returns, what \<^verbatim>\<open>send_json\<close> takes and what the
  document store holds. A value of \<open>pyval\<close> is one such Python value. A \<^verbatim>\<open>dict\<close>
  is an association list that is read through \<open>map_of\<close> and written through
  \<open>dict_set\<close> (a key keeps its position, a new key goes to the end). A finite float is
  the real number it denotes; NaN, the infinities and rounding are outside the model.
  \<open>PObjectId\<close> and \<open>PDatetime\<close> are the store's own value kinds.
\<close>

datatype pyval =
    PNone
  | PBool bool
  | PInt int
  | PFloat real
  | PStr string
  | PList "pyval list"
  | PDict "(string \<times> pyval) list"
  | PObjectId nat
  | PDatetime nat

type_synonym pydict = "(string \<times> pyval) list"

definition dict_get :: "pydict \<Rightarrow> string \<Rightarrow> pyval option" where
  "dict_get d k = map_of d k"

text \<open>\<^verbatim>\<open>d.get(k, default)\<close>\<close>

definition dict_get_default :: "pydict \<Rightarrow> string \<Rightarrow> pyval \<Rightarrow> pyval" where
  "dict_get_default d k dflt = (case dict_get d k of None \<Rightarrow> dflt | Some v \<Rightarrow> v)"

text \<open>\<^verbatim>\<open>d[k] = v\<close>, and \<^verbatim>\<open>{**d, k: v}\<close> as a new dict.\<close>

fun dict_set :: "string \<Rightarrow> pyval \<Rightarrow> pydict \<Rightarrow> pydict" where
  "dict_set k v [] = [(k, v)]"
| "dict_set k v (p # ps) = (if fst p = k then (k, v) # ps else p # dict_set k v ps)"

text \<open>
  The exceptions the handlers can meet. All of them are subclasses of
  \<^verbatim>\<open>Exception\<close>; \<^verbatim>\<open>except WebSocketDisconnect\<close> catches the first only. Each carries
  the text that \<^verbatim>\<open>str(e)\<close> gives. Task cancellation (a \<^verbatim>\<open>BaseException\<close>) belongs
  to the scheduler and is not modelled.
\<close>

datatype exn =
    WebSocketDisconnect
  | ValidationError string
  | TypeError string
  | StoreError string
  | RuntimeError string

fun str_exn :: "exn \<Rightarrow> string" where
  "str_exn WebSocketDisconnect = ''''"
| "str_exn (ValidationError s) = s"
| "str_exn (TypeError s) = s"
| "str_exn (StoreError s) = s"
| "str_exn (RuntimeError s) = s"

text \<open>
  Two library functions are parameters of the model: \<open>repr\<close>, the text Python's
  \<^verbatim>\<open>str()\<close> gives for a value that is neither a string, \<^verbatim>\<open>None\<close> nor a boolean, and
  \<open>float_of_str\<close>, pydantic's reading of a numeric string as a float.
\<close>

record pylib =
  repr :: "pyval \<Rightarrow> string"
  float_of_str :: "string \<Rightarrow> real option"

text \<open>\<^verbatim>\<open>str(v)\<close>\<close>

fun py_str :: "pylib \<Rightarrow> pyval \<Rightarrow> string" where
  "py_str lib (PStr s) = s"
| "py_str lib PNone = ''None''"
| "py_str lib (PBool b) = (if b then ''True'' else ''False'')"
| "py_str lib v = repr lib v"

section \<open>schemas.py\<close>

text \<open>
  The pydantic models. The fields carry a prefix, since \<open>x\<close>, \<open>size\<close> or \<open>room\<close>
  as constants would capture the variables of every later statement.
\<close>

record CanvasPoint =
  pt_x :: real
  pt_y :: real

record CanvasStroke =
  stroke_color :: string
  stroke_size :: real
  stroke_points :: "CanvasPoint list"

record CanvasEvent =
  ev_stroke :: CanvasStroke
  ev_user_id :: "string option"
  ev_room :: string

text \<open>
  Validation of one field value, in pydantic's default (lax) mode: a \<^verbatim>\<open>float\<close> field
  takes a float, an int, a bool or a numeric string; a \<^verbatim>\<open>str\<close> field takes a string
  only. \<open>None\<close> is a validation error.
\<close>

fun validate_float :: "pylib \<Rightarrow> pyval \<Rightarrow> real option" where
  "validate_float lib (PFloat f) = Some f"
| "validate_float lib (PInt i) = Some (of_int i)"
| "validate_float lib (PBool b) = Some (if b then 1 else 0)"
| "validate_float lib (PStr s) = float_of_str lib s"
| "validate_float lib v = None"

fun validate_str :: "pyval \<Rightarrow> string option" where
  "validate_str (PStr s) = Some s"
| "validate_str v = None"

text \<open>\<^verbatim>\<open>Optional[str]\<close>\<close>

fun validate_optional_str :: "pyval \<Rightarrow> string option option" where
  "validate_optional_str PNone = Some None"
| "validate_optional_str (PStr s) = Some (Some s)"
| "validate_optional_str v = None"

text \<open>A field with a default: the default when the key is absent, else the validated value.\<close>

definition field_or :: "'a \<Rightarrow> (pyval \<Rightarrow> 'a option) \<Rightarrow> pyval option \<Rightarrow> 'a option" where
  "field_or dflt validate v = (case v of None \<Rightarrow> Some dflt | Some u \<Rightarrow> validate u)"

text \<open>A required field.\<close>

definition field_required :: "(pyval \<Rightarrow> 'a option) \<Rightarrow> pyval option \<Rightarrow> 'a option" where
  "field_required validate v = (case v of None \<Rightarrow> None | Some u \<Rightarrow> validate u)"

text \<open>\<^verbatim>\<open>class CanvasPoint: x: float; y: float\<close>\<close>

fun validate_CanvasPoint :: "pylib \<Rightarrow> pyval \<Rightarrow> CanvasPoint option" where
  "validate_CanvasPoint lib (PDict d) =
     (case field_required (validate_float lib) (dict_get d ''x'') of
        None \<Rightarrow> None
      | Some fx \<Rightarrow>
          (case field_required (validate_float lib) (dict_get d ''y'') of
             None \<Rightarrow> None
           | Some fy \<Rightarrow> Some \<lparr>pt_x = fx, pt_y = fy\<rparr>))"
| "validate_CanvasPoint lib v = None"

text \<open>\<^verbatim>\<open>List[CanvasPoint]\<close>\<close>

fun validate_points :: "pylib \<Rightarrow> pyval \<Rightarrow> CanvasPoint list option" where
  "validate_points lib (PList vs) = those (map (validate_CanvasPoint lib) vs)"
| "validate_points lib v = None"

text \<open>\<^verbatim>\<open>size: float = Field(2.0, ge=0.5, le=50)\<close>\<close>

definition validate_size :: "pylib \<Rightarrow> pyval \<Rightarrow> real option" where
  "validate_size lib v =
     (case validate_float lib v of
        None \<Rightarrow> None
      | Some f \<Rightarrow> (if 1 / 2 \<le> f \<and> f \<le> 50 then Some f else None))"

text \<open>
  \<^verbatim>\<open>class CanvasStroke\<close>: \<open>color\<close> defaults to \<^verbatim>\<open>"#ffffff"\<close>, \<open>size\<close> to 2.0,
  \<open>points\<close> to the empty list. Keys the model does not declare are ignored.
\<close>

fun validate_CanvasStroke :: "pylib \<Rightarrow> pyval \<Rightarrow> CanvasStroke option" where
  "validate_CanvasStroke lib (PDict d) =
     (case field_or ''#ffffff'' validate_str (dict_get d ''color'') of
        None \<Rightarrow> None
      | Some c \<Rightarrow>
          (case field_or 2 (validate_size lib) (dict_get d ''size'') of
             None \<Rightarrow> None
           | Some s \<Rightarrow>
               (case field_or [] (validate_points lib) (dict_get d ''points'') of
                  None \<Rightarrow> None
                | Some ps \<Rightarrow>
                    Some \<lparr>stroke_color = c, stroke_size = s, stroke_points = ps\<rparr>)))"
| "validate_CanvasStroke lib v = None"

text \<open>
  \<^verbatim>\<open>class CanvasEvent\<close>: \<open>stroke\<close> is required, \<open>user_id\<close> defaults to \<^verbatim>\<open>None\<close>,
  \<open>room\<close> to \<^verbatim>\<open>"global"\<close>.
\<close>

definition validate_CanvasEvent :: "pylib \<Rightarrow> pydict \<Rightarrow> CanvasEvent option" where
  "validate_CanvasEvent lib kw =
     (case field_required (validate_CanvasStroke lib) (dict_get kw ''stroke'') of
        None \<Rightarrow> None
      | Some s \<Rightarrow>
          (case field_or None validate_optional_str (dict_get kw ''user_id'') of
             None \<Rightarrow> None
           | Some u \<Rightarrow>
               (case field_or ''global'' validate_str (dict_get kw ''room'') of
                  None \<Rightarrow> None
                | Some r \<Rightarrow> Some \<lparr>ev_stroke = s, ev_user_id = u, ev_room = r\<rparr>)))"

text \<open>\<^verbatim>\<open>CanvasEvent(**kw)\<close>: the model, or pydantic's \<^verbatim>\<open>ValidationError\<close>.\<close>

definition new_CanvasEvent :: "pylib \<Rightarrow> pydict \<Rightarrow> exn + CanvasEvent" where
  "new_CanvasEvent lib kw =
     (case validate_CanvasEvent lib kw of
        None \<Rightarrow> Inl (ValidationError ''validation error for CanvasEvent'')
      | Some e \<Rightarrow> Inr e)"

text \<open>\<^verbatim>\<open>model_dump()\<close>\<close>

definition CanvasPoint_dump :: "CanvasPoint \<Rightarrow> pyval" where
  "CanvasPoint_dump p = PDict [(''x'', PFloat (pt_x p)), (''y'', PFloat (pt_y p))]"

definition CanvasStroke_dump :: "CanvasStroke \<Rightarrow> pyval" where
  "CanvasStroke_dump s =
     PDict [(''color'', PStr (stroke_color s)),
            (''size'', PFloat (stroke_size s)),
            (''points'', PList (map CanvasPoint_dump (stroke_points s)))]"

definition model_dump :: "CanvasEvent \<Rightarrow> pydict" where
  "model_dump e =
     [(''stroke'', CanvasStroke_dump (ev_stroke e)),
      (''user_id'', (case ev_user_id e of None \<Rightarrow> PNone | Some u \<Rightarrow> PStr u)),
      (''room'', PStr (ev_room e))]"

section \<open>ConnectionManager\<close>

text \<open>
  A connection handle is an object compared by identity, here a number. A registry maps a
  room to the list of its handles, in the order of registration.
\<close>

type_synonym ws = nat

type_synonym rooms = "string \<Rightarrow> ws list option"

record ConnectionManager =
  canvas_rooms :: rooms
  note_rooms :: rooms

definition new_ConnectionManager :: ConnectionManager where
  "new_ConnectionManager = \<lparr>canvas_rooms = Map.empty, note_rooms = Map.empty\<rparr>"

text \<open>
  \<^verbatim>\<open>_get_rooms(kind)\<close> hands out the dict itself; \<open>set_rooms\<close> is the write through
  that reference.
\<close>

definition get_rooms :: "ConnectionManager \<Rightarrow> string \<Rightarrow> rooms" where
  "get_rooms m kind = (if kind = ''canvas'' then canvas_rooms m else note_rooms m)"

definition set_rooms :: "ConnectionManager \<Rightarrow> string \<Rightarrow> rooms \<Rightarrow> ConnectionManager" where
  "set_rooms m kind rs =
     (if kind = ''canvas'' then m\<lparr>canvas_rooms := rs\<rparr> else m\<lparr>note_rooms := rs\<rparr>)"

text \<open>\<^verbatim>\<open>rooms.setdefault(room, [])\<close>\<close>

definition setdefault :: "rooms \<Rightarrow> string \<Rightarrow> ws list \<Rightarrow> rooms" where
  "setdefault rs room dflt = (case rs room of None \<Rightarrow> rs(room \<mapsto> dflt) | Some b \<Rightarrow> rs)"

text \<open>
  \<^verbatim>\<open>connect\<close>, after the handshake \<^verbatim>\<open>ws.accept()\<close>: \<^verbatim>\<open>setdefault\<close>, then
  \<^verbatim>\<open>rooms[room].append(ws)\<close>. The key is present after \<^verbatim>\<open>setdefault\<close>, so the lookup
  cannot raise.
\<close>

definition connect :: "ConnectionManager \<Rightarrow> ws \<Rightarrow> string \<Rightarrow> string \<Rightarrow> ConnectionManager" where
  "connect m h room kind =
     (let rs = setdefault (get_rooms m kind) room []
      in (case rs room of
            None \<Rightarrow> set_rooms m kind rs
          | Some b \<Rightarrow> set_rooms m kind (rs(room \<mapsto> b @ [h]))))"

text \<open>
  \<^verbatim>\<open>disconnect\<close>: \<^verbatim>\<open>list.remove\<close> takes out the first occurrence; an emptied bucket
  is popped.
\<close>

definition disconnect :: "ConnectionManager \<Rightarrow> ws \<Rightarrow> string \<Rightarrow> string \<Rightarrow> ConnectionManager" where
  "disconnect m h room kind =
     (let rs = get_rooms m kind
      in (case rs room of
            None \<Rightarrow> m
          | Some b \<Rightarrow>
              (if h \<in> set b
               then (let b' = remove1 h b
                     in (if b' = [] then set_rooms m kind (rs(room := None))
                         else set_rooms m kind (rs(room \<mapsto> b'))))
               else m)))"

text \<open>The handles of a bucket, \<^verbatim>\<open>rooms.get(room, [])\<close>.\<close>

definition bucket :: "ConnectionManager \<Rightarrow> string \<Rightarrow> string \<Rightarrow> ws list" where
  "bucket m kind room = (case get_rooms m kind room of None \<Rightarrow> [] | Some b \<Rightarrow> b)"

section \<open>The world of the handlers\<close>

text \<open>
  What the handlers read and write: the registry, the document store (a collection name
  gives the list of its documents, in insertion order) and the log of every
  \<^verbatim>\<open>send_json\<close> call made, in order, with the handle it was made on. A step of a
  handler is taken as a whole: what other tasks do while it awaits is not modelled.
\<close>

record world =
  manager :: ConnectionManager
  db :: "string \<Rightarrow> pydict list"
  sent :: "(ws \<times> pyval) list"

text \<open>
  What the outside decides during one step: whether a send on a handle raises, and
  whether the store call of the step raises.
\<close>

record env =
  send_raises :: "ws \<Rightarrow> exn option"
  store_raises :: "exn option"

text \<open>
  \<^verbatim>\<open>await ws.send_json(message)\<close>: the call is logged; the result is the exception it
  raises, if any.
\<close>

definition send_json :: "env \<Rightarrow> ws \<Rightarrow> pyval \<Rightarrow> world \<Rightarrow> exn option \<times> world" where
  "send_json en h message w = (send_raises en h, w\<lparr>sent := sent w @ [(h, message)]\<rparr>)"

text \<open>
  The loop of \<^verbatim>\<open>broadcast\<close>: \<^verbatim>\<open>try: await ws.send_json(message)\<close>,
  \<^verbatim>\<open>except Exception: pass\<close>.
\<close>

fun broadcast_loop :: "env \<Rightarrow> pyval \<Rightarrow> ws list \<Rightarrow> world \<Rightarrow> exn option \<times> world" where
  "broadcast_loop en message [] w = (None, w)"
| "broadcast_loop en message (h # hs) w =
     (case send_json en h message w of
        (Some e, w') \<Rightarrow> broadcast_loop en message hs w'
      | (None, w') \<Rightarrow> broadcast_loop en message hs w')"

text \<open>\<^verbatim>\<open>broadcast\<close>: the loop over the bucket of the room.\<close>

definition broadcast :: "env \<Rightarrow> pyval \<Rightarrow> string \<Rightarrow> string \<Rightarrow> world \<Rightarrow> exn option \<times> world" where
  "broadcast en message room kind w =
     broadcast_loop en message (bucket (manager w) kind room) w"

section \<open>The store adapter\<close>

text \<open>A document matches a filter when it has every key of the filter with that value.\<close>

definition matches :: "pydict \<Rightarrow> pydict \<Rightarrow> bool" where
  "matches flt doc = list_all (\<lambda>(k, v). dict_get doc k = Some v) flt"

text \<open>
  Modelled from the spec: \<^verbatim>\<open>create_document\<close> of \<^verbatim>\<open>database.py\<close>, which is not among
  the sources; the spec's \<^verbatim>\<open>insert(collectionKind, document)\<close>. The dumped model is
  appended to the collection, or the store raises.
\<close>

definition create_document :: "env \<Rightarrow> string \<Rightarrow> CanvasEvent \<Rightarrow> world \<Rightarrow> exn + world" where
  "create_document en collection_name event w =
     (case store_raises en of
        Some e \<Rightarrow> Inl e
      | None \<Rightarrow>
          Inr (w\<lparr>db := (db w)(collection_name := db w collection_name @ [model_dump event])\<rparr>))"

text \<open>
  Modelled from the spec: \<^verbatim>\<open>get_documents\<close> of \<^verbatim>\<open>database.py\<close>, which is not among
  the sources; the spec's \<^verbatim>\<open>find(collectionKind, filter, limit)\<close>. The documents that
  match the filter, in store order, at most \<open>limit\<close> of them, or the store raises.
\<close>

definition get_documents :: "env \<Rightarrow> world \<Rightarrow> string \<Rightarrow> pydict \<Rightarrow> nat \<Rightarrow> exn + pydict list" where
  "get_documents en w collection_name flt limit =
     (case store_raises en of
        Some e \<Rightarrow> Inl e
      | None \<Rightarrow> Inr (take limit (filter (matches flt) (db w collection_name))))"

text \<open>
  Modelled from the spec: the store behind \<^verbatim>\<open>db\<close> of \<^verbatim>\<open>database.py\<close>, which is not
  among the sources; the spec's \<^verbatim>\<open>findOne(collectionKind, filter)\<close>, called as
  \<^verbatim>\<open>db[name].find_one(filter)\<close>. The first matching document, or \<^verbatim>\<open>None\<close>, or the
  store raises.
\<close>

definition find_one :: "env \<Rightarrow> world \<Rightarrow> string \<Rightarrow> pydict \<Rightarrow> exn + pydict option" where
  "find_one en w collection_name flt =
     (case store_raises en of
        Some e \<Rightarrow> Inl e
      | None \<Rightarrow> Inr (find (matches flt) (db w collection_name)))"

text \<open>\<^verbatim>\<open>$set\<close> on the first matching document of a collection.\<close>

fun set_first :: "pydict \<Rightarrow> pydict \<Rightarrow> pydict list \<Rightarrow> pydict list" where
  "set_first flt new_fields [] = []"
| "set_first flt new_fields (d # ds) =
     (if matches flt d then foldl (\<lambda>acc (k, v). dict_set k v acc) d new_fields # ds
      else d # set_first flt new_fields ds)"

text \<open>
  Modelled from the spec: the store behind \<^verbatim>\<open>db\<close> of \<^verbatim>\<open>database.py\<close>, which is not
  among the sources; the spec's \<^verbatim>\<open>upsert(collectionKind, filter, newFields)\<close>, called
  as \<^verbatim>\<open>db[name].update_one(filter, {"$set": fields}, upsert=True)\<close>. The first matching
  document gets the fields; when none matches, a document made of the filter and the
  fields is inserted; or the store raises.
\<close>

definition update_one :: "env \<Rightarrow> string \<Rightarrow> pydict \<Rightarrow> pydict \<Rightarrow> world \<Rightarrow> exn + world" where
  "update_one en collection_name flt new_fields w =
     (case store_raises en of
        Some e \<Rightarrow> Inl e
      | None \<Rightarrow>
          (let docs = db w collection_name
           in Inr (w\<lparr>db := (db w)(collection_name :=
                 (if list_ex (matches flt) docs then set_first flt new_fields docs
                  else docs @ [foldl (\<lambda>acc (k, v). dict_set k v acc) flt new_fields]))\<rparr>)))"

section \<open>The HTTP query surface\<close>

text \<open>The loop body of \<^verbatim>\<open>get_canvas_events\<close>: the store's values become strings.\<close>

definition stringify_event :: "pylib \<Rightarrow> pydict \<Rightarrow> pydict" where
  "stringify_event lib e =
     (let e1 = dict_set ''_id'' (PStr (py_str lib (dict_get_default e ''_id'' PNone))) e;
          e2 = (case dict_get e1 ''created_at'' of
                  None \<Rightarrow> e1
                | Some v \<Rightarrow> dict_set ''created_at'' (PStr (py_str lib v)) e1);
          e3 = (case dict_get e2 ''updated_at'' of
                  None \<Rightarrow> e2
                | Some v \<Rightarrow> dict_set ''updated_at'' (PStr (py_str lib v)) e2)
      in e3)"

text \<open>\<^verbatim>\<open>GET /api/canvas/{room}\<close>\<close>

definition get_canvas_events :: "pylib \<Rightarrow> env \<Rightarrow> string \<Rightarrow> world \<Rightarrow> exn + pyval" where
  "get_canvas_events lib en room w =
     (case get_documents en w ''canvasevent'' [(''room'', PStr room)] 500 of
        Inl e \<Rightarrow> Inl e
      | Inr events \<Rightarrow>
          Inr (PDict [(''events'', PList (map (\<lambda>e. PDict (stringify_event lib e)) events))]))"

text \<open>The events of a response of \<open>get_canvas_events\<close>.\<close>

fun response_events :: "pyval \<Rightarrow> pyval list" where
  "response_events (PDict [(k, PList es)]) = (if k = ''events'' then es else [])"
| "response_events v = []"

fun event_room :: "pyval \<Rightarrow> pyval option" where
  "event_room (PDict d) = dict_get d ''room''"
| "event_room v = None"

section \<open>The session handlers\<close>

text \<open>
  After a step of a handler the session is \<open>Open\<close> (the loop goes on), \<open>Closed\<close> (the
  handler returned after \<^verbatim>\<open>disconnect\<close>), or the handler was left by an exception
  that nothing caught.
\<close>

datatype status = Open | Closed | Raised exn

text \<open>
  The outer \<^verbatim>\<open>except WebSocketDisconnect: manager.disconnect(ws, room, kind)\<close> of both
  handlers; any other exception leaves the handler.
\<close>

definition on_exception :: "ws \<Rightarrow> string \<Rightarrow> string \<Rightarrow> exn \<Rightarrow> world \<Rightarrow> status \<times> world" where
  "on_exception h room kind e w =
     (if e = WebSocketDisconnect
      then (Closed, w\<lparr>manager := disconnect (manager w) h room kind\<rparr>)
      else (Raised e, w))"

definition error_message :: "string \<Rightarrow> pyval" where
  "error_message s = PDict [(''type'', PStr ''error''), (''message'', PStr s)]"

definition stroke_message :: "CanvasEvent \<Rightarrow> pyval" where
  "stroke_message event = PDict [(''type'', PStr ''stroke''), (''data'', PDict (model_dump event))]"

definition init_message :: "pyval \<Rightarrow> pyval" where
  "init_message content = PDict [(''type'', PStr ''init''), (''content'', content)]"

definition update_message :: "string \<Rightarrow> pyval" where
  "update_message content = PDict [(''type'', PStr ''update''), (''content'', PStr content)]"

text \<open>
  \<^verbatim>\<open>CanvasEvent(**{**data, "room": room})\<close>: unpacking a value that is not a mapping is
  a \<^verbatim>\<open>TypeError\<close>; in a mapping the connection's room replaces the client's.
\<close>

definition canvas_event_of :: "pylib \<Rightarrow> string \<Rightarrow> pyval \<Rightarrow> exn + CanvasEvent" where
  "canvas_event_of lib room data =
     (case data of
        PDict d \<Rightarrow> new_CanvasEvent lib (dict_set ''room'' (PStr room) d)
      | _ \<Rightarrow> Inl (TypeError ''object is not a mapping''))"

text \<open>The inner \<^verbatim>\<open>try\<close> block of \<^verbatim>\<open>ws_canvas\<close>: validate, persist, broadcast.\<close>

definition canvas_try :: "pylib \<Rightarrow> env \<Rightarrow> string \<Rightarrow> pyval \<Rightarrow> world \<Rightarrow> exn option \<times> world" where
  "canvas_try lib en room data w =
     (case canvas_event_of lib room data of
        Inl e \<Rightarrow> (Some e, w)
      | Inr event \<Rightarrow>
          (case create_document en ''canvasevent'' event w of
             Inl e \<Rightarrow> (Some e, w)
           | Inr w1 \<Rightarrow> broadcast en (stroke_message event) room ''canvas'' w1))"

text \<open>\<^verbatim>\<open>ws_canvas\<close> up to the loop: the handle is registered.\<close>

definition ws_canvas_open :: "ws \<Rightarrow> string \<Rightarrow> world \<Rightarrow> world" where
  "ws_canvas_open h room w = w\<lparr>manager := connect (manager w) h room ''canvas''\<rparr>"

text \<open>
  One round of the loop of \<^verbatim>\<open>ws_canvas\<close>. The input is what
  \<^verbatim>\<open>await ws.receive_json()\<close> gave: a value, or the exception it raised.
\<close>

definition ws_canvas_recv ::
    "pylib \<Rightarrow> env \<Rightarrow> ws \<Rightarrow> string \<Rightarrow> exn + pyval \<Rightarrow> world \<Rightarrow> status \<times> world" where
  "ws_canvas_recv lib en h room inp w =
     (case inp of
        Inl e \<Rightarrow> on_exception h room ''canvas'' e w
      | Inr data \<Rightarrow>
          (case canvas_try lib en room data w of
             (None, w1) \<Rightarrow> (Open, w1)
           | (Some e, w1) \<Rightarrow>
               (case send_json en h (error_message (str_exn e)) w1 of
                  (None, w2) \<Rightarrow> (Open, w2)
                | (Some e2, w2) \<Rightarrow> on_exception h room ''canvas'' e2 w2)))"

text \<open>
  \<^verbatim>\<open>current = db["note"].find_one({"room": room}) or {"content": ""}\<close>, then
  \<^verbatim>\<open>current.get("content", "")\<close>.
\<close>

definition current_content :: "pydict option \<Rightarrow> pyval" where
  "current_content doc =
     dict_get_default
       (case doc of None \<Rightarrow> [(''content'', PStr '''')]
                  | Some d \<Rightarrow> (if d = [] then [(''content'', PStr '''')] else d))
       ''content'' (PStr '''')"

text \<open>
  \<^verbatim>\<open>ws_note\<close> up to the loop: register, read the note (outside the \<^verbatim>\<open>try\<close>), send
  \<open>init\<close> (inside it).
\<close>

definition ws_note_open :: "env \<Rightarrow> ws \<Rightarrow> string \<Rightarrow> world \<Rightarrow> status \<times> world" where
  "ws_note_open en h room w =
     (let w1 = w\<lparr>manager := connect (manager w) h room ''note''\<rparr>
      in (case find_one en w1 ''note'' [(''room'', PStr room)] of
            Inl e \<Rightarrow> (Raised e, w1)
          | Inr doc \<Rightarrow>
              (case send_json en h (init_message (current_content doc)) w1 of
                 (None, w2) \<Rightarrow> (Open, w2)
               | (Some e, w2) \<Rightarrow> on_exception h room ''note'' e w2)))"

text \<open>\<^verbatim>\<open>isinstance(data, dict) and data.get("type") == "update"\<close>\<close>

fun is_update :: "pyval \<Rightarrow> bool" where
  "is_update (PDict d) = (dict_get d ''type'' = Some (PStr ''update''))"
| "is_update v = False"

text \<open>\<^verbatim>\<open>str(data.get("content", ""))\<close>\<close>

fun update_content :: "pylib \<Rightarrow> pyval \<Rightarrow> string" where
  "update_content lib (PDict d) = py_str lib (dict_get_default d ''content'' (PStr ''''))"
| "update_content lib v = ''''"

text \<open>
  One round of the loop of \<^verbatim>\<open>ws_note\<close>. Only \<^verbatim>\<open>WebSocketDisconnect\<close> is caught
  around it.
\<close>

definition ws_note_recv ::
    "pylib \<Rightarrow> env \<Rightarrow> ws \<Rightarrow> string \<Rightarrow> exn + pyval \<Rightarrow> world \<Rightarrow> status \<times> world" where
  "ws_note_recv lib en h room inp w =
     (case inp of
        Inl e \<Rightarrow> on_exception h room ''note'' e w
      | Inr data \<Rightarrow>
          (if is_update data
           then (let content = update_content lib data
                 in (case update_one en ''note'' [(''room'', PStr room)]
                            [(''content'', PStr content)] w of
                       Inl e \<Rightarrow> on_exception h room ''note'' e w
                     | Inr w1 \<Rightarrow>
                         (case broadcast en (update_message content) room ''note'' w1 of
                            (None, w2) \<Rightarrow> (Open, w2)
                          | (Some e, w2) \<Rightarrow> on_exception h room ''note'' e w2)))
           else (case send_json en h (error_message ''Invalid payload'') w of
                   (None, w1) \<Rightarrow> (Open, w1)
                 | (Some e, w1) \<Rightarrow> on_exception h room ''note'' e w1)))"

section \<open>Reachable states\<close>

text \<open>
  A handler runs on a connection object of its own, made by the framework when the
  connection arrives: at that moment the handle is in no bucket.
\<close>

definition fresh :: "world \<Rightarrow> ws \<Rightarrow> bool" where
  "fresh w h = (\<forall>kind room. h \<notin> set (bucket (manager w) kind room))"

text \<open>
  The worlds the handlers reach from an empty registry: a handler starts on a fresh
  handle, or a running handler takes one more round, whatever it receives and whatever
  the outside does.
\<close>

inductive reach :: "world \<Rightarrow> bool" where
  reach_init: "manager w = new_ConnectionManager \<Longrightarrow> reach w"
| reach_canvas_open: "reach w \<Longrightarrow> fresh w h \<Longrightarrow> reach (ws_canvas_open h room w)"
| reach_canvas_recv: "reach w \<Longrightarrow> reach (snd (ws_canvas_recv lib en h room inp w))"
| reach_note_open: "reach w \<Longrightarrow> fresh w h \<Longrightarrow> reach (snd (ws_note_open en h room w))"
| reach_note_recv: "reach w \<Longrightarrow> reach (snd (ws_note_recv lib en h room inp w))"

section \<open>Notions used in the statements\<close>

text \<open>The room of the event that a stroke message carries.\<close>

fun message_room :: "pyval \<Rightarrow> pyval option" where
  "message_room (PDict d) =
     (case dict_get d ''data'' of Some (PDict ev) \<Rightarrow> dict_get ev ''room'' | _ \<Rightarrow> None)"
| "message_room v = None"


text \<open>
  The registry invariant: no handle twice in a bucket, no handle in the buckets of two
  rooms of one kind.
\<close>

definition registry_ok :: "ConnectionManager \<Rightarrow> bool" where
  "registry_ok m =
     ((\<forall>kind room. distinct (bucket m kind room)) \<and>
      (\<forall>kind r1 r2 h. h \<in> set (bucket m kind r1) \<longrightarrow> h \<in> set (bucket m kind r2) \<longrightarrow> r1 = r2))"

section \<open>Inputs of the examples\<close>

text \<open>A library whose \<open>repr\<close> is a fixed text and that reads no string as a float.\<close>

definition lib0 :: pylib where
  "lib0 = \<lparr>repr = (\<lambda>v. ''?''), float_of_str = (\<lambda>s. None)\<rparr>"

text \<open>Every send and every store call succeeds.\<close>

definition env_ok :: env where
  "env_ok = \<lparr>send_raises = (\<lambda>h. None), store_raises = None\<rparr>"

text \<open>Every store call raises.\<close>

definition env_store_down :: env where
  "env_store_down = \<lparr>send_raises = (\<lambda>h. None), store_raises = Some (StoreError ''unavailable'')\<rparr>"

text \<open>The empty world.\<close>

definition world0 :: world where
  "world0 = \<lparr>manager = new_ConnectionManager, db = (\<lambda>c. []), sent = []\<rparr>"

text \<open>Room \<open>r\<close> with the handles 2 and 3 in both registries, an empty store.\<close>

definition world1 :: world where
  "world1 = \<lparr>manager = \<lparr>canvas_rooms = [''r'' \<mapsto> [2, 3]], note_rooms = [''r'' \<mapsto> [2, 3]]\<rparr>,
             db = (\<lambda>c. []), sent = []\<rparr>"


text \<open>A store with 501 events of room \<open>r\<close> and one of room \<open>q\<close>.\<close>

definition world_many :: world where
  "world_many = \<lparr>manager = new_ConnectionManager,
                 db = (\<lambda>c. replicate 501 [(''room'', PStr ''r'')] @ [[(''room'', PStr ''q'')]]),
                 sent = []\<rparr>"

text \<open>Two canvas sessions opened in room \<open>a\<close>, one after the other.\<close>

definition world2 :: world where
  "world2 = ws_canvas_open 3 ''a'' (ws_canvas_open 2 ''a'' world0)"

text \<open>A valid stroke message that names another room.\<close>

definition spoofed :: pyval where
  "spoofed = PDict [(''stroke'', PDict [(''points'', PList [PDict [(''x'', PInt 1), (''y'', PFloat 2)]])]),
                    (''room'', PStr ''other'')]"

text \<open>A stroke of size 100.\<close>

definition oversize :: pyval where
  "oversize = PDict [(''stroke'', PDict [(''size'', PInt 100)])]"

text \<open>A message without a \<open>stroke\<close> object.\<close>

definition flat_message :: pyval where
  "flat_message = PDict [(''user_id'', PStr ''u1'')]"

text \<open>A message whose \<open>stroke\<close> object is empty.\<close>

definition bare_stroke :: pyval where
  "bare_stroke = PDict [(''stroke'', PDict [])]"

text \<open>A note update with the content \<open>x\<close>.\<close>

definition update_x :: pyval where
  "update_x = PDict [(''type'', PStr ''update''), (''content'', PStr ''x'')]"


section \<open>The registry\<close>

lemma get_rooms_set_rooms:
  "get_rooms (set_rooms m kind rs) kind' =
     (if (kind' = ''canvas'') = (kind = ''canvas'') then rs else get_rooms m kind')"
  by (simp add: get_rooms_def set_rooms_def)

lemma set_rooms_get_rooms: "set_rooms m kind (get_rooms m kind) = m"
  by (simp add: get_rooms_def set_rooms_def)

lemma get_rooms_same_kind:
  "(kind' = ''canvas'') = (kind = ''canvas'') \<Longrightarrow> get_rooms m kind' = get_rooms m kind"
  by (simp add: get_rooms_def)

lemma in_remove1D: "x \<in> set (remove1 y xs) \<Longrightarrow> x \<in> set xs"
  using set_remove1_subset [of y xs] by blast

lemma get_rooms_connect:
  "get_rooms (connect m h room kind) kind' room' =
     (if (kind' = ''canvas'') = (kind = ''canvas'') \<and> room' = room
      then Some (bucket m kind room @ [h])
      else get_rooms m kind' room')"
  by (cases "get_rooms m kind room")
    (auto simp: connect_def setdefault_def bucket_def get_rooms_set_rooms
       get_rooms_same_kind [of kind' kind])

lemma get_rooms_disconnect:
  "get_rooms (disconnect m h room kind) kind' room' =
     (if (kind' = ''canvas'') = (kind = ''canvas'') \<and> room' = room
      then (case get_rooms m kind room of
              None \<Rightarrow> None
            | Some b \<Rightarrow> (if h \<in> set b
                         then (if remove1 h b = [] then None else Some (remove1 h b))
                         else Some b))
      else get_rooms m kind' room')"
  by (cases "get_rooms m kind room")
    (auto simp: disconnect_def get_rooms_set_rooms Let_def
       get_rooms_same_kind [of kind' kind])

lemma disconnect_absent:
  "h \<notin> set (bucket m kind room) \<Longrightarrow> disconnect m h room kind = m"
  by (cases "get_rooms m kind room") (simp_all add: disconnect_def bucket_def)

lemma bucket_same_kind:
  "(kind' = ''canvas'') = (kind = ''canvas'') \<Longrightarrow> bucket m kind' room = bucket m kind room"
  by (simp add: bucket_def get_rooms_def)

lemma bucket_connect:
  "bucket (connect m h room kind) kind' room' =
     (if (kind' = ''canvas'') = (kind = ''canvas'') \<and> room' = room
      then bucket m kind room @ [h]
      else bucket m kind' room')"
  by (simp add: bucket_def get_rooms_connect)

lemma bucket_disconnect:
  "bucket (disconnect m h room kind) kind' room' =
     (if (kind' = ''canvas'') = (kind = ''canvas'') \<and> room' = room
      then remove1 h (bucket m kind room)
      else bucket m kind' room')"
  by (auto simp: bucket_def get_rooms_disconnect remove1_idem split: option.splits)

lemma registry_ok_new: "registry_ok new_ConnectionManager"
  by (simp add: registry_ok_def bucket_def get_rooms_def new_ConnectionManager_def)

lemma registry_ok_connect:
  assumes ok: "registry_ok m"
    and fr: "\<forall>kind room. h \<notin> set (bucket m kind room)"
  shows "registry_ok (connect m h room kind)"
  unfolding registry_ok_def
proof (intro conjI allI impI)
  fix kind' room'
  show "distinct (bucket (connect m h room kind) kind' room')"
    using ok fr by (simp add: bucket_connect registry_ok_def)
next
  fix kind' r1 r2 h'
  assume a1: "h' \<in> set (bucket (connect m h room kind) kind' r1)"
    and a2: "h' \<in> set (bucket (connect m h room kind) kind' r2)"
  show "r1 = r2"
  proof (cases "h' = h")
    case True
    from a1 True fr have "r1 = room" by (auto simp: bucket_connect split: if_splits)
    moreover from a2 True fr have "r2 = room" by (auto simp: bucket_connect split: if_splits)
    ultimately show ?thesis by simp
  next
    case False
    from a1 False have b1: "h' \<in> set (bucket m kind' r1)"
      by (auto simp: bucket_connect bucket_same_kind [of kind' kind] split: if_splits)
    from a2 False have b2: "h' \<in> set (bucket m kind' r2)"
      by (auto simp: bucket_connect bucket_same_kind [of kind' kind] split: if_splits)
    from ok b1 b2 show ?thesis unfolding registry_ok_def by blast
  qed
qed

lemma registry_ok_disconnect:
  assumes ok: "registry_ok m"
  shows "registry_ok (disconnect m h room kind)"
  unfolding registry_ok_def
proof (intro conjI allI impI)
  fix kind' room'
  show "distinct (bucket (disconnect m h room kind) kind' room')"
    using ok by (simp add: bucket_disconnect registry_ok_def)
next
  fix kind' r1 r2 h'
  assume a1: "h' \<in> set (bucket (disconnect m h room kind) kind' r1)"
    and a2: "h' \<in> set (bucket (disconnect m h room kind) kind' r2)"
  from a1 have b1: "h' \<in> set (bucket m kind' r1)"
    by (auto simp: bucket_disconnect bucket_same_kind [of kind' kind] split: if_splits dest: in_remove1D)
  from a2 have b2: "h' \<in> set (bucket m kind' r2)"
    by (auto simp: bucket_disconnect bucket_same_kind [of kind' kind] split: if_splits dest: in_remove1D)
  from ok b1 b2 show "r1 = r2" unfolding registry_ok_def by blast
qed

section \<open>Broadcast\<close>

lemma broadcast_loop_result:
  "broadcast_loop en message hs w = (None, w\<lparr>sent := sent w @ map (\<lambda>h. (h, message)) hs\<rparr>)"
proof (induction hs arbitrary: w)
  case Nil
  show ?case by simp
next
  case (Cons h hs)
  show ?case by (simp add: send_json_def Cons.IH split: option.split)
qed

lemma broadcast_result:
  "broadcast en message room kind w =
     (None, w\<lparr>sent := sent w @ map (\<lambda>h. (h, message)) (bucket (manager w) kind room)\<rparr>)"
  by (simp add: broadcast_def broadcast_loop_result)



section \<open>The canvas handler\<close>

lemma dict_get_dict_set:
  "dict_get (dict_set k v d) k' = (if k' = k then Some v else dict_get d k')"
  by (induction d) (auto simp: dict_get_def)

lemma canvas_event_of_room:
  "canvas_event_of lib room data = Inr ev \<Longrightarrow> ev_room ev = room"
  by (auto simp: canvas_event_of_def new_CanvasEvent_def validate_CanvasEvent_def
      field_or_def dict_get_dict_set split: pyval.splits option.splits)

lemma model_dump_room: "dict_get (model_dump ev) ''room'' = Some (PStr (ev_room ev))"
  by (simp add: model_dump_def dict_get_def)

lemma canvas_try_invalid:
  "canvas_event_of lib room data = Inl e \<Longrightarrow> canvas_try lib en room data w = (Some e, w)"
  by (simp add: canvas_try_def)

lemma canvas_try_store_fail:
  "canvas_event_of lib room data = Inr ev \<Longrightarrow> store_raises en = Some e \<Longrightarrow>
   canvas_try lib en room data w = (Some e, w)"
  by (simp add: canvas_try_def create_document_def)

lemma canvas_try_ok:
  "canvas_event_of lib room data = Inr ev \<Longrightarrow> store_raises en = None \<Longrightarrow>
   canvas_try lib en room data w =
     (None, w\<lparr>db := (db w)(''canvasevent'' := db w ''canvasevent'' @ [model_dump ev]),
              sent := sent w @ map (\<lambda>x. (x, stroke_message ev)) (bucket (manager w) ''canvas'' room)\<rparr>)"
  by (simp add: canvas_try_def create_document_def broadcast_def broadcast_loop_result)

lemma on_exception_manager:
  "manager (snd (on_exception h room kind e w)) = manager w \<or>
   manager (snd (on_exception h room kind e w)) = disconnect (manager w) h room kind"
  by (simp add: on_exception_def)

lemma on_exception_db_sent:
  "db (snd (on_exception h room kind e w)) = db w \<and>
   sent (snd (on_exception h room kind e w)) = sent w"
  by (simp add: on_exception_def)

lemma on_exception_fst:
  "fst (on_exception h room kind e w) = (if e = WebSocketDisconnect then Closed else Raised e)"
  by (simp add: on_exception_def)

text \<open>The reply to a failed round of the canvas loop.\<close>

lemma ws_canvas_recv_failed:
  assumes "canvas_try lib en room data w = (Some e, w)"
  shows "ws_canvas_recv lib en h room (Inr data) w =
     (case send_raises en h of
        None \<Rightarrow> (Open, w\<lparr>sent := sent w @ [(h, error_message (str_exn e))]\<rparr>)
      | Some e2 \<Rightarrow> on_exception h room ''canvas'' e2
                    (w\<lparr>sent := sent w @ [(h, error_message (str_exn e))]\<rparr>))"
  using assms by (simp add: ws_canvas_recv_def send_json_def split: option.splits)

lemma ws_canvas_recv_ok:
  assumes "canvas_event_of lib room data = Inr ev" and "store_raises en = None"
  shows "ws_canvas_recv lib en h room (Inr data) w =
     (Open, w\<lparr>db := (db w)(''canvasevent'' := db w ''canvasevent'' @ [model_dump ev]),
              sent := sent w @ map (\<lambda>x. (x, stroke_message ev)) (bucket (manager w) ''canvas'' room)\<rparr>)"
  using assms by (simp add: ws_canvas_recv_def canvas_try_ok)

lemma ws_canvas_recv_manager:
  "manager (snd (ws_canvas_recv lib en h room inp w)) = manager w \<or>
   manager (snd (ws_canvas_recv lib en h room inp w)) = disconnect (manager w) h room ''canvas''"
proof (cases inp)
  case (Inl e)
  then show ?thesis by (simp add: ws_canvas_recv_def on_exception_def)
next
  case (Inr data)
  show ?thesis
  proof (cases "canvas_event_of lib room data")
    case (Inl e)
    then show ?thesis
      using Inr by (simp add: ws_canvas_recv_failed [OF canvas_try_invalid] on_exception_def
          split: option.splits)
  next
    case ev: (Inr ev)
    show ?thesis
    proof (cases "store_raises en")
      case None
      then show ?thesis using Inr ev by (simp add: ws_canvas_recv_ok)
    next
      case (Some e)
      then show ?thesis
        using Inr ev by (simp add: ws_canvas_recv_failed [OF canvas_try_store_fail]
            on_exception_def split: option.splits)
    qed
  qed
qed

section \<open>The note handler and the store\<close>

lemma matches_room: "matches [(''room'', PStr room)] d = (dict_get d ''room'' = Some (PStr room))"
  by (simp add: matches_def)





lemma update_one_rest:
  assumes "update_one en coll flt nf w = Inr w1"
  shows "manager w1 = manager w \<and> sent w1 = sent w \<and> store_raises en = None"
  using assms by (auto simp: update_one_def Let_def split: option.splits)

lemma update_one_total:
  "store_raises en = None \<Longrightarrow> \<exists>w1. update_one en coll flt nf w = Inr w1"
  by (simp add: update_one_def Let_def)

lemma update_one_fail:
  "store_raises en = Some e \<Longrightarrow> update_one en coll flt nf w = Inl e"
  by (simp add: update_one_def)

lemma ws_note_recv_update:
  assumes "is_update data"
    and "update_one en ''note'' [(''room'', PStr room)]
           [(''content'', PStr (update_content lib data))] w = Inr w1"
  shows "ws_note_recv lib en h room (Inr data) w =
     (Open, w1\<lparr>sent := sent w @ map (\<lambda>x. (x, update_message (update_content lib data)))
                   (bucket (manager w) ''note'' room)\<rparr>)"
  using assms update_one_rest [OF assms(2)]
  by (simp add: ws_note_recv_def broadcast_result)

lemma ws_note_recv_store_fail:
  assumes "is_update data" and "store_raises en = Some e"
  shows "ws_note_recv lib en h room (Inr data) w = on_exception h room ''note'' e w"
  using assms by (simp add: ws_note_recv_def update_one_fail)

lemma ws_note_recv_invalid:
  assumes "\<not> is_update data"
  shows "ws_note_recv lib en h room (Inr data) w =
     (case send_raises en h of
        None \<Rightarrow> (Open, w\<lparr>sent := sent w @ [(h, error_message ''Invalid payload'')]\<rparr>)
      | Some e \<Rightarrow> on_exception h room ''note'' e
                    (w\<lparr>sent := sent w @ [(h, error_message ''Invalid payload'')]\<rparr>))"
  using assms by (simp add: ws_note_recv_def send_json_def split: option.splits)

lemma ws_note_recv_manager:
  "manager (snd (ws_note_recv lib en h room inp w)) = manager w \<or>
   manager (snd (ws_note_recv lib en h room inp w)) = disconnect (manager w) h room ''note''"
proof (cases inp)
  case (Inl e)
  then show ?thesis by (simp add: ws_note_recv_def on_exception_def)
next
  case (Inr data)
  show ?thesis
  proof (cases "is_update data")
    case False
    then show ?thesis
      using Inr by (simp add: ws_note_recv_invalid on_exception_def split: option.splits)
  next
    case True
    show ?thesis
    proof (cases "store_raises en")
      case None
      from update_one_total [OF None] obtain w1 where
        u: "update_one en ''note'' [(''room'', PStr room)]
              [(''content'', PStr (update_content lib data))] w = Inr w1" by blast
      show ?thesis
        using Inr update_one_rest [OF u] by (simp add: ws_note_recv_update [OF True u])
    next
      case (Some e)
      then show ?thesis
        using Inr True by (simp add: ws_note_recv_store_fail on_exception_def)
    qed
  qed
qed

lemma ws_note_open_result:
  "ws_note_open en h room w =
     (case store_raises en of
        Some e \<Rightarrow> (Raised e, w\<lparr>manager := connect (manager w) h room ''note''\<rparr>)
      | None \<Rightarrow>
          (case send_raises en h of
             None \<Rightarrow>
               (Open, w\<lparr>manager := connect (manager w) h room ''note'',
                        sent := sent w @ [(h, init_message (current_content
                          (find (matches [(''room'', PStr room)]) (db w ''note''))))]\<rparr>)
           | Some e \<Rightarrow>
               on_exception h room ''note'' e
                 (w\<lparr>manager := connect (manager w) h room ''note'',
                    sent := sent w @ [(h, init_message (current_content
                      (find (matches [(''room'', PStr room)]) (db w ''note''))))]\<rparr>)))"
  by (simp add: ws_note_open_def find_one_def send_json_def Let_def split: option.splits)

lemma stringify_event_room: "dict_get (stringify_event lib e) ''room'' = dict_get e ''room''"
  by (simp add: stringify_event_def Let_def dict_get_dict_set split: option.splits)

lemma get_documents_result:
  assumes "get_documents en w coll [(''room'', PStr room)] limit = Inr events"
  shows "length events \<le> limit \<and> (\<forall>e\<in>set events. dict_get e ''room'' = Some (PStr room))"
proof -
  from assms have ev: "events = take limit (filter (matches [(''room'', PStr room)]) (db w coll))"
    by (auto simp: get_documents_def split: option.splits)
  have "set events \<subseteq> set (filter (matches [(''room'', PStr room)]) (db w coll))"
    unfolding ev by (rule set_take_subset)
  then show ?thesis
    unfolding ev by (auto simp: matches_room)
qed

section \<open>Deregistration\<close>

lemma count_list_distinct: "distinct xs \<Longrightarrow> x \<in> set xs \<Longrightarrow> count_list xs x = 1"
  by (induction xs) auto

lemma disconnect_no_empty:
  "get_rooms m kind room \<noteq> Some [] \<Longrightarrow> get_rooms (disconnect m h room kind) kind room \<noteq> Some []"
  by (auto simp: get_rooms_disconnect split: option.splits if_splits)

lemma fold_disconnect_bucket:
  "distinct (bucket m kind room) \<Longrightarrow>
   bucket (foldl (\<lambda>a x. disconnect a x room kind) m hs) kind room =
     filter (\<lambda>x. x \<notin> set hs) (bucket m kind room)"
proof (induction hs arbitrary: m)
  case Nil
  show ?case by simp
next
  case (Cons x hs)
  have d: "distinct (bucket (disconnect m x room kind) kind room)"
    using Cons.prems by (simp add: bucket_disconnect)
  show ?case
    using Cons.IH [OF d] Cons.prems
    by (auto simp: bucket_disconnect distinct_remove1_removeAll removeAll_filter_not_eq
        intro: filter_cong)
qed

lemma fold_disconnect_no_empty:
  "get_rooms m kind room \<noteq> Some [] \<Longrightarrow>
   get_rooms (foldl (\<lambda>a x. disconnect a x room kind) m hs) kind room \<noteq> Some []"
  by (induction hs arbitrary: m) (simp_all add: disconnect_no_empty)

lemma bucket_empty_None:
  "get_rooms m kind room \<noteq> Some [] \<Longrightarrow> bucket m kind room = [] \<Longrightarrow> get_rooms m kind room = None"
  by (cases "get_rooms m kind room") (simp_all add: bucket_def)

section \<open>The invariant of the reachable states\<close>

lemma reach_registry_ok: "reach w \<Longrightarrow> registry_ok (manager w)"
proof (induction rule: reach.induct)
  case (reach_init w)
  then show ?case by (simp add: registry_ok_new)
next
  case (reach_canvas_open w h room)
  then show ?case
    by (simp add: ws_canvas_open_def fresh_def registry_ok_connect)
next
  case (reach_canvas_recv w lib en h room inp)
  then show ?case
    using ws_canvas_recv_manager [of lib en h room inp w]
    by (auto simp: registry_ok_disconnect)
next
  case (reach_note_open w h en room)
  have c: "registry_ok (connect (manager w) h room ''note'')"
    using reach_note_open by (simp add: fresh_def registry_ok_connect)
  show ?case
    using c registry_ok_disconnect [OF c, of h room "''note''"]
    by (auto simp: ws_note_open_result on_exception_def split: option.splits)
next
  case (reach_note_recv w lib en h room inp)
  then show ?case
    using ws_note_recv_manager [of lib en h room inp w]
    by (auto simp: registry_ok_disconnect)
qed

text \<open>
  Claim C9. In every world the handlers reach, a handle that is in the buckets of two
  rooms of one kind is in one room only, and it occurs once in that bucket.
\<close>

theorem handle_in_one_bucket:
  assumes "reach w"
    and "h \<in> set (bucket (manager w) kind r1)"
    and "h \<in> set (bucket (manager w) kind r2)"
  shows "r1 = r2 \<and> count_list (bucket (manager w) kind r1) h = 1"
proof -
  have ok: "registry_ok (manager w)" using assms(1) by (rule reach_registry_ok)
  from ok assms(2,3) have "r1 = r2" unfolding registry_ok_def by blast
  moreover from ok have "distinct (bucket (manager w) kind r1)"
    unfolding registry_ok_def by blast
  then have "count_list (bucket (manager w) kind r1) h = 1"
    using assms(2) by (rule count_list_distinct)
  ultimately show ?thesis by simp
qed

lemma fresh_world0: "fresh world0 h"
  by (simp add: fresh_def world0_def bucket_def get_rooms_def new_ConnectionManager_def)

lemma reach_world0: "reach world0"
  by (rule reach_init) (simp add: world0_def)

text \<open>Two canvas sessions opened in room \<open>a\<close>.\<close>

theorem handle_in_one_bucket_witness:
  "reach (ws_canvas_open 3 ''a'' (ws_canvas_open 2 ''a'' world0)) \<and>
   bucket (manager (ws_canvas_open 3 ''a'' (ws_canvas_open 2 ''a'' world0))) ''canvas'' ''a'' = [2, 3] \<and>
   count_list (bucket (manager (ws_canvas_open 3 ''a'' (ws_canvas_open 2 ''a'' world0))) ''canvas'' ''a'') 3 = 1"
proof -
  have b1: "\<And>kind room. bucket (manager (ws_canvas_open 2 ''a'' world0)) kind room =
      (if kind = ''canvas'' \<and> room = ''a'' then [2] else [])"
    by (simp add: ws_canvas_open_def bucket_connect)
      (simp add: world0_def bucket_def get_rooms_def new_ConnectionManager_def)
  have r1: "reach (ws_canvas_open 2 ''a'' world0)"
    by (rule reach_canvas_open [OF reach_world0 fresh_world0])
  have f2: "fresh (ws_canvas_open 2 ''a'' world0) 3"
    unfolding fresh_def by (simp add: b1)
  have r2: "reach (ws_canvas_open 3 ''a'' (ws_canvas_open 2 ''a'' world0))"
    by (rule reach_canvas_open [OF r1 f2])
  have b2: "bucket (manager (ws_canvas_open 3 ''a'' (ws_canvas_open 2 ''a'' world0))) ''canvas'' ''a'' = [2, 3]"
    by (simp add: ws_canvas_open_def [of 3] bucket_connect b1)
  have m: "3 \<in> set (bucket (manager (ws_canvas_open 3 ''a'' (ws_canvas_open 2 ''a'' world0))) ''canvas'' ''a'')"
    by (simp add: b2)
  show ?thesis
    using r2 b2 handle_in_one_bucket [OF r2 m m] by simp
qed

section \<open>The room of a persisted event\<close>

lemma message_room_stroke: "message_room (stroke_message ev) = Some (PStr (ev_room ev))"
  by (simp add: stroke_message_def dict_get_def model_dump_def)

lemma ws_canvas_recv_failed_parts:
  assumes "canvas_try lib en room data w = (Some e, w)"
  shows "sent (snd (ws_canvas_recv lib en h room (Inr data) w)) =
           sent w @ [(h, error_message (str_exn e))] \<and>
         db (snd (ws_canvas_recv lib en h room (Inr data) w)) = db w \<and>
         fst (ws_canvas_recv lib en h room (Inr data) w) =
           (case send_raises en h of
              None \<Rightarrow> Open
            | Some e2 \<Rightarrow> (if e2 = WebSocketDisconnect then Closed else Raised e2)) \<and>
         (send_raises en h = None \<longrightarrow>
            manager (snd (ws_canvas_recv lib en h room (Inr data) w)) = manager w)"
  by (simp add: ws_canvas_recv_failed [OF assms] on_exception_def split: option.splits)

text \<open>
  Claim C1. A round of the canvas loop on a connection opened for \<open>room\<close> either
  persists nothing and sends one error reply to the sender, or persists and broadcasts one
  event: the validated message, whose room is \<open>room\<close> in the record, in the stored
  document and in the stroke message, whatever room the client wrote.
\<close>

theorem canvas_event_room_forced:
  "(\<exists>e. db (snd (ws_canvas_recv lib en h room (Inr data) w)) = db w \<and>
        sent (snd (ws_canvas_recv lib en h room (Inr data) w)) =
          sent w @ [(h, error_message (str_exn e))]) \<or>
   (\<exists>ev. canvas_event_of lib room data = Inr ev \<and>
         ev_room ev = room \<and>
         dict_get (model_dump ev) ''room'' = Some (PStr room) \<and>
         message_room (stroke_message ev) = Some (PStr room) \<and>
         db (snd (ws_canvas_recv lib en h room (Inr data) w)) =
           (db w)(''canvasevent'' := db w ''canvasevent'' @ [model_dump ev]) \<and>
         sent (snd (ws_canvas_recv lib en h room (Inr data) w)) =
           sent w @ map (\<lambda>x. (x, stroke_message ev)) (bucket (manager w) ''canvas'' room))"
proof (cases "canvas_event_of lib room data")
  case (Inl e)
  from ws_canvas_recv_failed_parts [OF canvas_try_invalid [OF Inl]]
  show ?thesis by blast
next
  case (Inr ev)
  show ?thesis
  proof (cases "store_raises en")
    case (Some e)
    from ws_canvas_recv_failed_parts [OF canvas_try_store_fail [OF Inr Some]]
    show ?thesis by blast
  next
    case None
    have "ev_room ev = room" using Inr by (rule canvas_event_of_room)
    then show ?thesis
      using Inr by (simp add: ws_canvas_recv_ok [OF Inr None] model_dump_room message_room_stroke)
  qed
qed

lemma canvas_event_of_spoofed:
  "canvas_event_of lib0 ''r'' spoofed =
     Inr \<lparr>ev_stroke = \<lparr>stroke_color = ''#ffffff'', stroke_size = 2,
                        stroke_points = [\<lparr>pt_x = 1, pt_y = 2\<rparr>]\<rparr>,
          ev_user_id = None, ev_room = ''r''\<rparr>"
  by (simp add: canvas_event_of_def spoofed_def new_CanvasEvent_def validate_CanvasEvent_def
      field_required_def field_or_def dict_get_def validate_size_def)

lemma bucket_world1: "bucket (manager world1) kind ''r'' = [2, 3]"
  by (simp add: world1_def bucket_def get_rooms_def)

lemma store_env_ok: "store_raises env_ok = None"
  by (simp add: env_ok_def)

lemma send_env_ok: "send_raises env_ok h = None"
  by (simp add: env_ok_def)

text \<open>A message that names the room \<open>other\<close>, received on a connection for room \<open>r\<close>.\<close>

theorem canvas_event_room_forced_witness:
  "map (\<lambda>d. dict_get d ''room'')
     (db (snd (ws_canvas_recv lib0 env_ok 2 ''r'' (Inr spoofed) world1)) ''canvasevent'') =
     [Some (PStr ''r'')] \<and>
   map (\<lambda>(x, m). (x, message_room m))
     (sent (snd (ws_canvas_recv lib0 env_ok 2 ''r'' (Inr spoofed) world1))) =
     [(2, Some (PStr ''r'')), (3, Some (PStr ''r''))]"
proof -
  have d: "db world1 = (\<lambda>c. [])" and s: "sent world1 = []"
    by (simp_all add: world1_def)
  show ?thesis
    using canvas_event_room_forced [of lib0 env_ok 2 "''r''" spoofed world1]
    by (simp add: ws_canvas_recv_ok [OF canvas_event_of_spoofed store_env_ok]
        bucket_world1 d s model_dump_room message_room_stroke)
qed

section \<open>Messages that fail validation\<close>

text \<open>
  Claim C2. When the message fails validation, the round makes one send, the error reply
  to the sender, and leaves the whole store as it was. The session stays open and the
  registry is unchanged when that reply goes through; when the send itself raises, the
  sender's connection is gone and the handler ends as for any failed send.
\<close>

theorem canvas_invalid_message_rejected:
  assumes "canvas_event_of lib room data = Inl e"
  shows "sent (snd (ws_canvas_recv lib en h room (Inr data) w)) =
           sent w @ [(h, error_message (str_exn e))] \<and>
         db (snd (ws_canvas_recv lib en h room (Inr data) w)) = db w \<and>
         fst (ws_canvas_recv lib en h room (Inr data) w) =
           (case send_raises en h of
              None \<Rightarrow> Open
            | Some e2 \<Rightarrow> (if e2 = WebSocketDisconnect then Closed else Raised e2)) \<and>
         (send_raises en h = None \<longrightarrow>
            manager (snd (ws_canvas_recv lib en h room (Inr data) w)) = manager w)"
  using assms by (intro ws_canvas_recv_failed_parts canvas_try_invalid)

lemma size_out_of_range_invalid:
  assumes "dict_get d ''stroke'' = Some (PDict s)"
    and "dict_get s ''size'' = Some (PFloat f)"
    and "f < 1 / 2 \<or> 50 < f"
  shows "\<exists>e. canvas_event_of lib room (PDict d) = Inl e"
  using assms
  by (auto simp: canvas_event_of_def new_CanvasEvent_def validate_CanvasEvent_def
      field_required_def field_or_def dict_get_dict_set validate_size_def split: option.splits)

lemma canvas_event_of_oversize:
  "canvas_event_of lib0 ''r'' oversize = Inl (ValidationError ''validation error for CanvasEvent'')"
  by (simp add: canvas_event_of_def oversize_def new_CanvasEvent_def validate_CanvasEvent_def
      field_required_def field_or_def dict_get_def validate_size_def)

text \<open>A stroke of size 100.\<close>

theorem canvas_invalid_message_rejected_witness:
  "canvas_event_of lib0 ''r'' oversize = Inl (ValidationError ''validation error for CanvasEvent'') \<and>
   sent (snd (ws_canvas_recv lib0 env_ok 2 ''r'' (Inr oversize) world1)) =
     [(2, error_message ''validation error for CanvasEvent'')] \<and>
   db (snd (ws_canvas_recv lib0 env_ok 2 ''r'' (Inr oversize) world1)) ''canvasevent'' = [] \<and>
   fst (ws_canvas_recv lib0 env_ok 2 ''r'' (Inr oversize) world1) = Open \<and>
   bucket (manager (snd (ws_canvas_recv lib0 env_ok 2 ''r'' (Inr oversize) world1))) ''canvas'' ''r'' = [2, 3]"
  using canvas_invalid_message_rejected [OF canvas_event_of_oversize, of env_ok 2 world1]
  by (simp add: canvas_event_of_oversize send_env_ok bucket_world1) (simp add: world1_def)

section \<open>A store that raises\<close>

text \<open>
  Claim C4. With a store that raises, the canvas handler replies with an error and
  stays open, but the note handler is left by the exception on a valid update: nothing is
  sent to the sender, the session is over and the handle is still registered.
\<close>

theorem store_failure_canvas_replies_note_raises:
  "ws_canvas_recv lib0 env_store_down 2 ''r'' (Inr bare_stroke) world1 =
     (Open, world1\<lparr>sent := [(2, error_message ''unavailable'')]\<rparr>) \<and>
   ws_note_recv lib0 env_store_down 2 ''r'' (Inr update_x) world1 =
     (Raised (StoreError ''unavailable''), world1) \<and>
   bucket (manager world1) ''note'' ''r'' = [2, 3]"
proof -
  have ev: "canvas_event_of lib0 ''r'' bare_stroke =
      Inr \<lparr>ev_stroke = \<lparr>stroke_color = ''#ffffff'', stroke_size = 2, stroke_points = []\<rparr>,
           ev_user_id = None, ev_room = ''r''\<rparr>"
    by (simp add: canvas_event_of_def bare_stroke_def new_CanvasEvent_def
        validate_CanvasEvent_def field_required_def field_or_def dict_get_def)
  have st: "store_raises env_store_down = Some (StoreError ''unavailable'')"
    and se: "send_raises env_store_down 2 = None"
    by (simp_all add: env_store_down_def)
  have s: "sent world1 = []" by (simp add: world1_def)
  have c: "ws_canvas_recv lib0 env_store_down 2 ''r'' (Inr bare_stroke) world1 =
      (Open, world1\<lparr>sent := [(2, error_message ''unavailable'')]\<rparr>)"
    by (simp add: ws_canvas_recv_failed [OF canvas_try_store_fail [OF ev st]] se s)
  have u: "is_update update_x" by (simp add: update_x_def dict_get_def)
  have n: "ws_note_recv lib0 env_store_down 2 ''r'' (Inr update_x) world1 =
      (Raised (StoreError ''unavailable''), world1)"
    by (simp add: ws_note_recv_store_fail [OF u st] on_exception_def)
  show ?thesis using c n by (simp add: bucket_world1)
qed

section \<open>Strokes without points\<close>

text \<open>
  Claim C10, as stated, fails: a message without points, color and size that carries no
  \<open>stroke\<close> object is rejected with an error reply and nothing is persisted.
\<close>

theorem flat_message_rejected:
  "canvas_event_of lib0 ''r'' flat_message =
     Inl (ValidationError ''validation error for CanvasEvent'') \<and>
   ws_canvas_recv lib0 env_ok 2 ''r'' (Inr flat_message) world1 =
     (Open, world1\<lparr>sent := [(2, error_message ''validation error for CanvasEvent'')]\<rparr>)"
proof -
  have ev: "canvas_event_of lib0 ''r'' flat_message =
      Inl (ValidationError ''validation error for CanvasEvent'')"
    by (simp add: canvas_event_of_def flat_message_def new_CanvasEvent_def
        validate_CanvasEvent_def field_required_def field_or_def dict_get_def)
  have s: "sent world1 = []" by (simp add: world1_def)
  show ?thesis
    by (simp add: ev ws_canvas_recv_failed [OF canvas_try_invalid [OF ev]] send_env_ok s)
qed

lemma no_stroke_object_invalid:
  assumes "\<forall>d s. data = PDict d \<longrightarrow> dict_get d ''stroke'' \<noteq> Some (PDict s)"
  shows "\<exists>e. canvas_event_of lib room data = Inl e"
proof (cases data)
  case (PDict d)
  have "field_required (validate_CanvasStroke lib) (dict_get d ''stroke'') = None"
  proof (cases "dict_get d ''stroke''")
    case None
    then show ?thesis by (simp add: field_required_def)
  next
    case (Some v)
    with assms PDict have "\<forall>s. v \<noteq> PDict s" by simp
    then have "validate_CanvasStroke lib v = None" by (cases v) simp_all
    with Some show ?thesis by (simp add: field_required_def)
  qed
  then show ?thesis
    using PDict
    by (simp add: canvas_event_of_def new_CanvasEvent_def validate_CanvasEvent_def
        dict_get_dict_set)
qed (simp_all add: canvas_event_of_def)

lemma canvas_event_of_flat_message:
  "canvas_event_of lib0 ''r'' flat_message =
     Inl (ValidationError ''validation error for CanvasEvent'')"
  by (simp add: canvas_event_of_def flat_message_def new_CanvasEvent_def
      validate_CanvasEvent_def field_required_def field_or_def dict_get_def)

text \<open>
  Claim C10, amended. A message whose \<open>stroke\<close> object has no \<open>points\<close>, whose
  \<open>color\<close> and \<open>size\<close> are absent or valid and whose \<open>user_id\<close> is absent or valid
  is accepted when the store works: the event persisted and broadcast has the empty list
  of points, and the color \<^verbatim>\<open>"#ffffff"\<close> and the size 2.0 where these are absent. Every
  message that carries no \<open>stroke\<close> object (the key is absent, its value is not a
  mapping, or the message is no mapping at all) is rejected: one error reply to the
  sender, the store unchanged.
\<close>

theorem stroke_defaults_and_required:
  "(dict_get d ''stroke'' = Some (PDict s) \<and>
    dict_get s ''points'' = None \<and>
    field_or ''#ffffff'' validate_str (dict_get s ''color'') = Some c \<and>
    field_or 2 (validate_size lib) (dict_get s ''size'') = Some z \<and>
    field_or None validate_optional_str (dict_get d ''user_id'') = Some u \<and>
    store_raises en = None \<longrightarrow>
      canvas_event_of lib room (PDict d) =
        Inr \<lparr>ev_stroke = \<lparr>stroke_color = c, stroke_size = z, stroke_points = []\<rparr>,
             ev_user_id = u, ev_room = room\<rparr> \<and>
      (dict_get s ''color'' = None \<longrightarrow> c = ''#ffffff'') \<and>
      (dict_get s ''size'' = None \<longrightarrow> z = 2) \<and>
      ws_canvas_recv lib en h room (Inr (PDict d)) w =
        (Open, w\<lparr>db := (db w)(''canvasevent'' := db w ''canvasevent'' @
                  [model_dump \<lparr>ev_stroke = \<lparr>stroke_color = c, stroke_size = z, stroke_points = []\<rparr>,
                               ev_user_id = u, ev_room = room\<rparr>]),
                 sent := sent w @
                   map (\<lambda>x. (x, stroke_message
                          \<lparr>ev_stroke = \<lparr>stroke_color = c, stroke_size = z, stroke_points = []\<rparr>,
                           ev_user_id = u, ev_room = room\<rparr>))
                     (bucket (manager w) ''canvas'' room)\<rparr>)) \<and>
   ((\<forall>d' s'. data = PDict d' \<longrightarrow> dict_get d' ''stroke'' \<noteq> Some (PDict s')) \<longrightarrow>
      (\<exists>e. canvas_event_of lib room data = Inl e \<and>
           sent (snd (ws_canvas_recv lib en h room (Inr data) w)) =
             sent w @ [(h, error_message (str_exn e))] \<and>
           db (snd (ws_canvas_recv lib en h room (Inr data) w)) = db w))"
proof (intro conjI impI)
  assume a: "dict_get d ''stroke'' = Some (PDict s) \<and>
    dict_get s ''points'' = None \<and>
    field_or ''#ffffff'' validate_str (dict_get s ''color'') = Some c \<and>
    field_or 2 (validate_size lib) (dict_get s ''size'') = Some z \<and>
    field_or None validate_optional_str (dict_get d ''user_id'') = Some u \<and>
    store_raises en = None"
  then have st: "store_raises en = None" by simp
  show ev: "canvas_event_of lib room (PDict d) =
      Inr \<lparr>ev_stroke = \<lparr>stroke_color = c, stroke_size = z, stroke_points = []\<rparr>,
           ev_user_id = u, ev_room = room\<rparr>"
    using a
    by (simp add: canvas_event_of_def new_CanvasEvent_def validate_CanvasEvent_def
        field_required_def field_or_def dict_get_dict_set)
  show "ws_canvas_recv lib en h room (Inr (PDict d)) w =
        (Open, w\<lparr>db := (db w)(''canvasevent'' := db w ''canvasevent'' @
                  [model_dump \<lparr>ev_stroke = \<lparr>stroke_color = c, stroke_size = z, stroke_points = []\<rparr>,
                               ev_user_id = u, ev_room = room\<rparr>]),
                 sent := sent w @
                   map (\<lambda>x. (x, stroke_message
                          \<lparr>ev_stroke = \<lparr>stroke_color = c, stroke_size = z, stroke_points = []\<rparr>,
                           ev_user_id = u, ev_room = room\<rparr>))
                     (bucket (manager w) ''canvas'' room)\<rparr>)"
    by (simp add: ws_canvas_recv_ok [OF ev st])
  {
    assume "dict_get s ''color'' = None"
    then show "c = ''#ffffff''" using a by (auto simp: field_or_def)
  }
  {
    assume "dict_get s ''size'' = None"
    then show "z = 2" using a by (auto simp: field_or_def)
  }
next
  assume n: "\<forall>d' s'. data = PDict d' \<longrightarrow> dict_get d' ''stroke'' \<noteq> Some (PDict s')"
  from no_stroke_object_invalid [OF n] obtain e where
    e: "canvas_event_of lib room data = Inl e" by blast
  from ws_canvas_recv_failed_parts [OF canvas_try_invalid [OF e]] e
  show "\<exists>e. canvas_event_of lib room data = Inl e \<and>
           sent (snd (ws_canvas_recv lib en h room (Inr data) w)) =
             sent w @ [(h, error_message (str_exn e))] \<and>
           db (snd (ws_canvas_recv lib en h room (Inr data) w)) = db w"
    by blast
qed

text \<open>The messages \<^verbatim>\<open>{"stroke": {}}\<close> and \<^verbatim>\<open>{"user_id": "u1"}\<close>.\<close>

theorem stroke_defaults_and_required_witness:
  "canvas_event_of lib0 ''r'' bare_stroke =
     Inr \<lparr>ev_stroke = \<lparr>stroke_color = ''#ffffff'', stroke_size = 2, stroke_points = []\<rparr>,
          ev_user_id = None, ev_room = ''r''\<rparr> \<and>
   db (snd (ws_canvas_recv lib0 env_ok 2 ''r'' (Inr bare_stroke) world1)) ''canvasevent'' =
     [[(''stroke'', PDict [(''color'', PStr ''#ffffff''), (''size'', PFloat 2), (''points'', PList [])]),
       (''user_id'', PNone), (''room'', PStr ''r'')]] \<and>
   map fst (sent (snd (ws_canvas_recv lib0 env_ok 2 ''r'' (Inr bare_stroke) world1))) = [2, 3] \<and>
   sent (snd (ws_canvas_recv lib0 env_ok 2 ''r'' (Inr flat_message) world1)) =
     [(2, error_message ''validation error for CanvasEvent'')] \<and>
   db (snd (ws_canvas_recv lib0 env_ok 2 ''r'' (Inr flat_message) world1)) ''canvasevent'' = []"
proof -
  have a: "dict_get [(''stroke'', PDict [])] ''stroke'' = Some (PDict []) \<and>
    dict_get [] ''points'' = None \<and>
    field_or ''#ffffff'' validate_str (dict_get [] ''color'') = Some ''#ffffff'' \<and>
    field_or 2 (validate_size lib0) (dict_get [] ''size'') = Some 2 \<and>
    field_or None validate_optional_str (dict_get [(''stroke'', PDict [])] ''user_id'') = Some None \<and>
    store_raises env_ok = None"
    by (simp add: dict_get_def field_or_def store_env_ok)
  have n: "\<forall>d' s'. flat_message = PDict d' \<longrightarrow> dict_get d' ''stroke'' \<noteq> Some (PDict s')"
    by (simp add: flat_message_def dict_get_def)
  have d: "db world1 = (\<lambda>c. [])" and s: "sent world1 = []"
    by (simp_all add: world1_def)
  from stroke_defaults_and_required
    [where d = "[(''stroke'', PDict [])]" and s = "[]" and c = "''#ffffff''" and z = 2
       and u = None and lib = lib0 and en = env_ok and room = "''r''" and h = 2 and w = world1
       and data = flat_message]
  have first: "canvas_event_of lib0 ''r'' (PDict [(''stroke'', PDict [])]) =
        Inr \<lparr>ev_stroke = \<lparr>stroke_color = ''#ffffff'', stroke_size = 2, stroke_points = []\<rparr>,
             ev_user_id = None, ev_room = ''r''\<rparr>"
    and recv: "ws_canvas_recv lib0 env_ok 2 ''r'' (Inr (PDict [(''stroke'', PDict [])])) world1 =
        (Open, world1\<lparr>db := (db world1)(''canvasevent'' := db world1 ''canvasevent'' @
                  [model_dump \<lparr>ev_stroke = \<lparr>stroke_color = ''#ffffff'', stroke_size = 2, stroke_points = []\<rparr>,
                               ev_user_id = None, ev_room = ''r''\<rparr>]),
                 sent := sent world1 @
                   map (\<lambda>x. (x, stroke_message
                          \<lparr>ev_stroke = \<lparr>stroke_color = ''#ffffff'', stroke_size = 2, stroke_points = []\<rparr>,
                           ev_user_id = None, ev_room = ''r''\<rparr>))
                     (bucket (manager world1) ''canvas'' ''r'')\<rparr>)"
    and second: "\<exists>e. canvas_event_of lib0 ''r'' flat_message = Inl e \<and>
           sent (snd (ws_canvas_recv lib0 env_ok 2 ''r'' (Inr flat_message) world1)) =
             sent world1 @ [(2, error_message (str_exn e))] \<and>
           db (snd (ws_canvas_recv lib0 env_ok 2 ''r'' (Inr flat_message) world1)) = db world1"
    using a n by blast+
  from second have s2: "sent (snd (ws_canvas_recv lib0 env_ok 2 ''r'' (Inr flat_message) world1)) =
       [(2, error_message ''validation error for CanvasEvent'')]"
    and d2: "db (snd (ws_canvas_recv lib0 env_ok 2 ''r'' (Inr flat_message) world1)) ''canvasevent'' = []"
    by (auto simp: canvas_event_of_flat_message s d)
  show ?thesis
    using first recv s2 d2
    by (simp add: bare_stroke_def bucket_world1 d s model_dump_def CanvasStroke_dump_def)
qed

section \<open>The stored note\<close>



section \<open>What disconnect does\<close>

lemma disconnect_no_empty_any:
  assumes "get_rooms m kind' room' \<noteq> Some []"
  shows "get_rooms (disconnect m h room kind) kind' room' \<noteq> Some []"
proof (cases "(kind' = ''canvas'') = (kind = ''canvas'') \<and> room' = room")
  case True
  then have "get_rooms m kind room \<noteq> Some []"
    using assms get_rooms_same_kind [of kind' kind m] by simp
  then have "get_rooms (disconnect m h room kind) kind room \<noteq> Some []"
    by (rule disconnect_no_empty)
  then show ?thesis
    using True get_rooms_same_kind [of kind' kind "disconnect m h room kind"] by simp
next
  case False
  then show ?thesis using assms by (auto simp: get_rooms_disconnect)
qed

lemma connect_no_empty:
  assumes "get_rooms m kind' room' \<noteq> Some []"
  shows "get_rooms (connect m h room kind) kind' room' \<noteq> Some []"
  using assms by (simp add: get_rooms_connect)

lemma reach_no_empty: "reach w \<Longrightarrow> get_rooms (manager w) kind room \<noteq> Some []"
proof (induction arbitrary: kind room rule: reach.induct)
  case (reach_init w)
  then show ?case by (simp add: new_ConnectionManager_def get_rooms_def)
next
  case (reach_canvas_open w h r)
  then show ?case by (simp add: ws_canvas_open_def connect_no_empty)
next
  case (reach_canvas_recv w lib en h r inp)
  then show ?case
    using ws_canvas_recv_manager [of lib en h r inp w]
    by (auto simp: disconnect_no_empty_any)
next
  case (reach_note_open w h en r)
  have c: "get_rooms (connect (manager w) h r ''note'') kind room \<noteq> Some []"
    using reach_note_open.IH by (rule connect_no_empty)
  show ?case
    using c disconnect_no_empty_any [OF c, of h r "''note''"]
    by (auto simp: ws_note_open_result on_exception_def split: option.splits)
next
  case (reach_note_recv w lib en h r inp)
  then show ?case
    using ws_note_recv_manager [of lib en h r inp w]
    by (auto simp: disconnect_no_empty_any)
qed

lemma reach_distinct: "reach w \<Longrightarrow> distinct (bucket (manager w) kind room)"
  using reach_registry_ok [of w] unfolding registry_ok_def by blast

text \<open>
  Claim C5. In every world the handlers reach, \<open>disconnect\<close> removes the handle from
  the bucket when it is there and removes the entry when the bucket gets empty; the other
  handles of the bucket and every other bucket stay as they were; for a handle that is
  not in the bucket it is a no-op, so a second deregistration of the same handle changes
  nothing; and when all the members of a room have deregistered, in any order, the room
  has no entry. \<open>disconnect\<close> has no branch that raises.
\<close>

theorem disconnect_in_reachable_world:
  assumes "reach w"
  shows "get_rooms (disconnect (manager w) h room kind) kind room =
           (case get_rooms (manager w) kind room of
              None \<Rightarrow> None
            | Some b \<Rightarrow> (if h \<in> set b
                         then (if remove1 h b = [] then None else Some (remove1 h b))
                         else Some b)) \<and>
         bucket (disconnect (manager w) h room kind) kind room =
           removeAll h (bucket (manager w) kind room) \<and>
         h \<notin> set (bucket (disconnect (manager w) h room kind) kind room) \<and>
         (bucket (disconnect (manager w) h room kind) kind room = [] \<longrightarrow>
            get_rooms (disconnect (manager w) h room kind) kind room = None) \<and>
         (\<not> ((kind' = ''canvas'') = (kind = ''canvas'') \<and> room' = room) \<longrightarrow>
            get_rooms (disconnect (manager w) h room kind) kind' room' =
            get_rooms (manager w) kind' room') \<and>
         (h \<notin> set (bucket (manager w) kind room) \<longrightarrow>
            disconnect (manager w) h room kind = manager w) \<and>
         disconnect (disconnect (manager w) h room kind) h room kind =
           disconnect (manager w) h room kind \<and>
         (set (bucket (manager w) kind room) \<subseteq> set hs \<longrightarrow>
            get_rooms (foldl (\<lambda>a x. disconnect a x room kind) (manager w) hs) kind room = None)"
proof -
  have d: "distinct (bucket (manager w) kind room)" using assms by (rule reach_distinct)
  have ne: "get_rooms (manager w) kind room \<noteq> Some []" using assms by (rule reach_no_empty)
  have b: "bucket (disconnect (manager w) h room kind) kind room =
      removeAll h (bucket (manager w) kind room)"
    using d by (simp add: bucket_disconnect distinct_remove1_removeAll)
  have a: "h \<notin> set (bucket (disconnect (manager w) h room kind) kind room)"
    by (simp add: b)
  have p1: "get_rooms (disconnect (manager w) h room kind) kind room =
           (case get_rooms (manager w) kind room of
              None \<Rightarrow> None
            | Some b \<Rightarrow> (if h \<in> set b
                         then (if remove1 h b = [] then None else Some (remove1 h b))
                         else Some b))"
    by (simp add: get_rooms_disconnect)
  have p4: "bucket (disconnect (manager w) h room kind) kind room = [] \<longrightarrow>
      get_rooms (disconnect (manager w) h room kind) kind room = None"
    using disconnect_no_empty [OF ne, of h] by (auto intro: bucket_empty_None)
  have p5: "\<not> ((kind' = ''canvas'') = (kind = ''canvas'') \<and> room' = room) \<longrightarrow>
      get_rooms (disconnect (manager w) h room kind) kind' room' =
      get_rooms (manager w) kind' room'"
    by (auto simp: get_rooms_disconnect)
  have p6: "h \<notin> set (bucket (manager w) kind room) \<longrightarrow>
      disconnect (manager w) h room kind = manager w"
    by (simp add: disconnect_absent)
  have p7: "disconnect (disconnect (manager w) h room kind) h room kind =
      disconnect (manager w) h room kind"
    using a by (rule disconnect_absent)
  have p8: "set (bucket (manager w) kind room) \<subseteq> set hs \<longrightarrow>
      get_rooms (foldl (\<lambda>a x. disconnect a x room kind) (manager w) hs) kind room = None"
  proof
    assume s: "set (bucket (manager w) kind room) \<subseteq> set hs"
    have "bucket (foldl (\<lambda>a x. disconnect a x room kind) (manager w) hs) kind room =
        filter (\<lambda>x. x \<notin> set hs) (bucket (manager w) kind room)"
      using d by (rule fold_disconnect_bucket)
    also have "\<dots> = []" using s by (auto simp: filter_empty_conv)
    finally show "get_rooms (foldl (\<lambda>a x. disconnect a x room kind) (manager w) hs) kind room = None"
      using fold_disconnect_no_empty [OF ne] by (rule bucket_empty_None [rotated])
  qed
  show ?thesis using p1 b a p4 p5 p6 p7 p8 by blast
qed

lemma bucket_world2:
  "bucket (manager world2) kind room = (if kind = ''canvas'' \<and> room = ''a'' then [2, 3] else [])"
  by (simp add: world2_def ws_canvas_open_def bucket_connect)
    (simp add: world0_def bucket_def get_rooms_def new_ConnectionManager_def)

lemma reach_world2: "reach world2"
proof -
  have b1: "\<And>kind room. bucket (manager (ws_canvas_open 2 ''a'' world0)) kind room =
      (if kind = ''canvas'' \<and> room = ''a'' then [2] else [])"
    by (simp add: ws_canvas_open_def bucket_connect)
      (simp add: world0_def bucket_def get_rooms_def new_ConnectionManager_def)
  have r1: "reach (ws_canvas_open 2 ''a'' world0)"
    by (rule reach_canvas_open [OF reach_world0 fresh_world0])
  have f2: "fresh (ws_canvas_open 2 ''a'' world0) 3"
    unfolding fresh_def by (simp add: b1)
  show ?thesis
    unfolding world2_def by (rule reach_canvas_open [OF r1 f2])
qed

text \<open>Room \<open>a\<close> with the handles 2 and 3, reached by opening two canvas sessions.\<close>

theorem disconnect_in_reachable_world_witness:
  "reach world2 \<and>
   bucket (manager world2) ''canvas'' ''a'' = [2, 3] \<and>
   bucket (disconnect (manager world2) 2 ''a'' ''canvas'') ''canvas'' ''a'' = [3] \<and>
   disconnect (manager world2) 4 ''a'' ''canvas'' = manager world2 \<and>
   disconnect (disconnect (manager world2) 2 ''a'' ''canvas'') 2 ''a'' ''canvas'' =
     disconnect (manager world2) 2 ''a'' ''canvas'' \<and>
   get_rooms (foldl (\<lambda>a x. disconnect a x ''a'' ''canvas'') (manager world2) [3, 2])
     ''canvas'' ''a'' = None"
  using reach_world2
    disconnect_in_reachable_world [OF reach_world2, of 2 "''a''" "''canvas''" "''note''" "''a''" "[3, 2]"]
    disconnect_in_reachable_world [OF reach_world2, of 4 "''a''" "''canvas''" "''note''" "''a''" "[3, 2]"]
  by (simp add: bucket_world2)

section \<open>Opening a note session\<close>




section \<open>Note updates\<close>




section \<open>The canvas query\<close>

text \<open>
  Claim C8. When the store answers, \<open>get_canvas_events\<close> returns a response; every
  response has at most 500 events, and each of them has the room asked for.
\<close>

theorem canvas_events_capped:
  "(store_raises en = None \<longrightarrow> (\<exists>resp. get_canvas_events lib en room w = Inr resp)) \<and>
   (\<forall>resp. get_canvas_events lib en room w = Inr resp \<longrightarrow>
      length (response_events resp) \<le> 500 \<and>
      (\<forall>e\<in>set (response_events resp). event_room e = Some (PStr room)))"
proof (intro conjI impI allI)
  assume "store_raises en = None"
  then show "\<exists>resp. get_canvas_events lib en room w = Inr resp"
    by (simp add: get_canvas_events_def get_documents_def)
next
  fix resp
  assume r: "get_canvas_events lib en room w = Inr resp"
  then obtain events where
    g: "get_documents en w ''canvasevent'' [(''room'', PStr room)] 500 = Inr events" and
    resp: "resp = PDict [(''events'', PList (map (\<lambda>e. PDict (stringify_event lib e)) events))]"
    by (auto simp: get_canvas_events_def split: sum.splits)
  have re: "response_events resp = map (\<lambda>e. PDict (stringify_event lib e)) events"
    by (simp add: resp)
  from get_documents_result [OF g]
  have len: "length events \<le> 500"
    and rooms: "\<forall>e\<in>set events. dict_get e ''room'' = Some (PStr room)" by simp_all
  show "length (response_events resp) \<le> 500" using len by (simp add: re)
  show "\<forall>e\<in>set (response_events resp). event_room e = Some (PStr room)"
    using rooms by (auto simp: re stringify_event_room)
qed

text \<open>A store with 501 events of room \<open>r\<close> and one of room \<open>q\<close>.\<close>

theorem canvas_events_capped_witness:
  "length (filter (matches [(''room'', PStr ''r'')]) (db world_many ''canvasevent'')) = 501 \<and>
   (\<exists>resp. get_canvas_events lib0 env_ok ''r'' world_many = Inr resp \<and>
      length (response_events resp) = 500)"
proof -
  have f: "filter (matches [(''room'', PStr ''r'')]) (db world_many ''canvasevent'') =
      replicate 501 [(''room'', PStr ''r'')]"
    by (simp add: world_many_def matches_room dict_get_def)
  have g: "get_canvas_events lib0 env_ok ''r'' world_many =
      Inr (PDict [(''events'', PList (map (\<lambda>e. PDict (stringify_event lib0 e))
             (replicate 500 [(''room'', PStr ''r'')])))])"
    by (simp add: get_canvas_events_def get_documents_def store_env_ok f)
  show ?thesis
    using canvas_events_capped [of env_ok lib0 "''r''" world_many]
    by (simp add: f g)
qed

end
